theory Spec2Isabelle
  imports Main "HOL-Library.Multiset"
begin

section \<open>Python values\<close>

text \<open>
  A Python \<open>str\<close> is a sequence of Unicode code points. The column names of the workbook
  are Cyrillic, so a string is modelled as the list of its code points; \<open>py\<close> embeds an
  ASCII literal.
\<close>

type_synonym pystr = "nat list"

definition py :: "string \<Rightarrow> pystr" where
  "py s = map of_char s"

text \<open>The code points that \<open>str.isspace\<close> accepts, which \<open>str.strip()\<close> removes.\<close>

definition isspace :: "nat \<Rightarrow> bool" where
  "isspace c =
     ((9 \<le> c \<and> c \<le> 13) \<or> (28 \<le> c \<and> c \<le> 32) \<or> c = 133 \<or> c = 160 \<or> c = 5760
      \<or> (8192 \<le> c \<and> c \<le> 8202) \<or> c = 8232 \<or> c = 8233 \<or> c = 8239 \<or> c = 8287
      \<or> c = 12288)"

definition strip :: "pystr \<Rightarrow> pystr" where
  "strip s = rev (dropWhile isspace (rev (dropWhile isspace s)))"

section \<open>Workbook and data frames\<close>

text \<open>
  A cell is \<open>'v option\<close>: \<open>None\<close> is what \<open>isnull()\<close> accepts (NaN, None, NaT), \<open>Some v\<close>
  any other value; equality on \<open>'v\<close> stands for Python's \<open>==\<close> on dictionary keys. A data
  frame has its column labels (already strings: \<open>str(c)\<close> is the identity on them) and
  its rows in source order, indexed by the default \<open>RangeIndex\<close> 0, 1, ... A row shorter
  than the header is padded with nulls, as pandas does.
\<close>

record 'v dataframe =
  columns :: "pystr list"
  rows :: "'v option list list"

text \<open>A workbook: its sheets in order, each with what \<open>xls.parse\<close> gives for it.\<close>

type_synonym 'v workbook = "(pystr \<times> (pystr + 'v dataframe)) list"

definition sheet_names :: "'v workbook \<Rightarrow> pystr list" where
  "sheet_names xls = map fst xls"

definition parse :: "'v workbook \<Rightarrow> pystr \<Rightarrow> pystr + 'v dataframe" where
  "parse xls s = (case map_of xls s of None \<Rightarrow> Inl s | Some r \<Rightarrow> r)"

text \<open>\<open>df.rename(columns=lambda c: str(c).strip(), inplace=True)\<close>\<close>

definition rename_columns :: "'v dataframe \<Rightarrow> 'v dataframe" where
  "rename_columns df = df\<lparr>columns := map strip (columns df)\<rparr>"

datatype exn =
    KeyError pystr
  | NotScalar pystr
  | UniqueViolation
  | ForeignKeyViolation
  | SqliteError pystr

definition positions :: "pystr list \<Rightarrow> pystr \<Rightarrow> nat list" where
  "positions cols c = filter (\<lambda>i. cols ! i = c) [0..<length cols]"

definition cell_at :: "'v option list \<Rightarrow> nat \<Rightarrow> 'v option" where
  "cell_at row i = (if i < length row then row ! i else None)"

text \<open>
  \<open>row[c]\<close> for a row of \<open>iterrows()\<close>: \<open>KeyError\<close> when no column has the label; when
  several have it (two headers equal after stripping) pandas returns a Series, which
  the dictionary lookup and the SQL parameter binding that follow refuse with an
  exception; that exception is raised here, at the read.
\<close>

definition row_get :: "pystr list \<Rightarrow> 'v option list \<Rightarrow> pystr \<Rightarrow> exn + 'v option" where
  "row_get cols row c =
     (case positions cols c of
        [] \<Rightarrow> Inl (KeyError c)
      | [i] \<Rightarrow> Inr (cell_at row i)
      | _ \<Rightarrow> Inl (NotScalar c))"

text \<open>\<open>df[cols].isnull().any().any()\<close>\<close>

definition has_null :: "'v dataframe \<Rightarrow> pystr list \<Rightarrow> bool" where
  "has_null df cols =
     list_ex (\<lambda>row. list_ex (\<lambda>i. columns df ! i \<in> set cols \<and> cell_at row i = None)
                       [0..<length (columns df)])
             (rows df)"

section \<open>The column contract\<close>

definition col_name :: pystr where "col_name = [1048, 1052, 1071]"
definition col_X :: pystr where "col_X = py ''X''"
definition col_Y :: pystr where "col_Y = py ''Y''"
definition col_Z :: pystr where "col_Z = py ''Z''"
definition col_length :: pystr where "col_length = [1044, 1051, 1048, 1053, 1040]"
definition col_level :: pystr where
  "col_level = [1043, 1054, 1056, 1048, 1047, 1054, 1053, 1058]"
definition col_issue_date :: pystr where
  "col_issue_date = [1044, 1040, 1058, 1040, 32, 1055, 1056, 1054, 1061, 1054, 1044, 1050, 1048]"
definition col_hole_name :: pystr where "col_hole_name = [1054, 1041, 1066, 1045, 1050, 1058]"
definition col_from :: pystr where "col_from = [1054, 1058]"
definition col_to :: pystr where "col_to = [1044, 1054]"
definition col_Au :: pystr where "col_Au = py ''Au''"

text \<open>The keys of the dictionaries \<open>holes_cols\<close> and \<open>assay_cols\<close>, in insertion order.\<close>

definition holes_cols :: "pystr list" where
  "holes_cols = [col_name, col_X, col_Y, col_Z, col_length, col_level, col_issue_date]"

definition assay_cols :: "pystr list" where
  "assay_cols = [col_hole_name, col_from, col_to, col_Au]"

definition sheet_Holes :: pystr where "sheet_Holes = py ''Holes''"
definition sheet_Assay :: pystr where "sheet_Assay = py ''Assay''"

definition required_sheets :: "pystr list" where
  "required_sheets = [sheet_Holes, sheet_Assay]"

section \<open>Diagnostics\<close>

text \<open>
  One constructor for each message template of the source, carrying the values the
  f-string interpolates.
\<close>

datatype 'v diag =
    SheetMissing pystr
  | ExcelReadError pystr
  | ExcelNotFound pystr
  | DbNotFound pystr
  | ExcelOpenError pystr
  | SheetParseError pystr
  | ColumnMissing pystr pystr
  | NullValues pystr
  | HoleMissing "'v option" int
  | DbError exn

section \<open>The store\<close>

record 'v hole_values =
  v_x :: "'v option"
  v_y :: "'v option"
  v_z :: "'v option"
  v_lenght :: "'v option"
  v_level :: "'v option"
  v_issue_date :: "'v option"

record 'v hole =
  h_id :: int
  h_name :: "'v option"
  h_values :: "'v hole_values"

record 'v assay_row =
  a_id :: int
  a_hole_id :: int
  a_from :: "'v option"
  a_to :: "'v option"
  a_Au :: "'v option"

record 'v store =
  holes :: "'v hole list"
  assay :: "'v assay_row list"

text \<open>
  Modelled from the spec: the schema of the store is not part of the sources. The spec
  gives \<open>holes(id PK, name UNIQUE, ...)\<close> and \<open>assay(id PK, hole_id FK -> holes.id, ...)\<close>;
  the generated key of a new row is one more than the largest key of the table (1 for
  an empty table), the uniqueness constraint ignores \<open>NULL\<close> names, and the foreign key
  is enforced (\<open>PRAGMA foreign_keys = ON\<close>).
\<close>

fun next_id :: "int list \<Rightarrow> int" where
  "next_id [] = 1"
| "next_id (i # ids) = fold max ids i + 1"

definition update_hole :: "'v store \<Rightarrow> int \<Rightarrow> 'v hole_values \<Rightarrow> 'v store" where
  "update_hole st hid vs =
     st\<lparr>holes := map (\<lambda>r. if h_id r = hid then r\<lparr>h_values := vs\<rparr> else r) (holes st)\<rparr>"

definition insert_hole ::
  "'v store \<Rightarrow> 'v option \<Rightarrow> 'v hole_values \<Rightarrow> exn + ('v store \<times> int)" where
  "insert_hole st name vs =
     (if name \<noteq> None \<and> name \<in> set (map h_name (holes st)) then Inl UniqueViolation
      else let i = next_id (map h_id (holes st))
           in Inr (st\<lparr>holes := holes st @ [\<lparr>h_id = i, h_name = name, h_values = vs\<rparr>]\<rparr>, i))"

definition insert_assay ::
  "'v store \<Rightarrow> int \<Rightarrow> 'v option \<Rightarrow> 'v option \<Rightarrow> 'v option \<Rightarrow> exn + 'v store" where
  "insert_assay st hid from_val to_val au_val =
     (if hid \<in> set (map h_id (holes st))
      then Inr (st\<lparr>assay := assay st @
                   [\<lparr>a_id = next_id (map a_id (assay st)), a_hole_id = hid,
                     a_from = from_val, a_to = to_val, a_Au = au_val\<rparr>]\<rparr>)
      else Inl ForeignKeyViolation)"

section \<open>The world of one call\<close>

text \<open>
  What the call reads: \<open>os.path.isfile\<close>, \<open>pd.ExcelFile\<close> (\<open>Inl\<close> the text of the
  exception it raises) and the file behind a database path: \<open>Unopenable\<close> when
  \<open>sqlite3.connect\<close> raises, \<open>Corrupt\<close> when the connection opens and the first statements
  raise (not a database, no table \<open>holes\<close>), \<open>Database\<close> a provisioned store. Only the
  database files are written.
\<close>

datatype 'v dbfile = Unopenable pystr | Corrupt pystr | Database "'v store"

record 'v world =
  isfile :: "pystr \<Rightarrow> bool"
  excel_file :: "pystr \<Rightarrow> pystr + 'v workbook"
  sqlite :: "pystr \<Rightarrow> 'v dbfile"

datatype event =
  OpenWorkbook | CloseWorkbook | Connect | Commit | Rollback | CloseConnection

record 'v outcome =
  success :: bool
  diagnostics :: "'v diag list"
  events :: "event list"
  final :: "'v world"

section \<open>Reader and validator\<close>

text \<open>The loop over \<open>required_sheets\<close>, appending to \<open>errors\<close>.\<close>

fun check_sheets :: "pystr list \<Rightarrow> pystr list \<Rightarrow> 'v diag list \<Rightarrow> 'v diag list" where
  "check_sheets [] names errors = errors"
| "check_sheets (sheet # sheets) names errors =
     (if sheet \<notin> set names then check_sheets sheets names (errors @ [SheetMissing sheet])
      else check_sheets sheets names errors)"

definition load_sheets :: "'v workbook \<Rightarrow> pystr + ('v dataframe \<times> 'v dataframe)" where
  "load_sheets xls =
     (case parse xls sheet_Holes of
        Inl e \<Rightarrow> Inl e
      | Inr holes_df \<Rightarrow>
          (case parse xls sheet_Assay of
             Inl e \<Rightarrow> Inl e
           | Inr assay_df \<Rightarrow> Inr (rename_columns holes_df, rename_columns assay_df)))"

text \<open>The loops over the required columns of one sheet, appending to \<open>errors\<close>.\<close>

fun check_columns ::
  "pystr list \<Rightarrow> pystr \<Rightarrow> pystr list \<Rightarrow> 'v diag list \<Rightarrow> 'v diag list" where
  "check_columns [] sheet present errors = errors"
| "check_columns (col # cols) sheet present errors =
     (if col \<notin> set present then check_columns cols sheet present (errors @ [ColumnMissing col sheet])
      else check_columns cols sheet present errors)"

definition column_errors :: "'v dataframe \<Rightarrow> 'v dataframe \<Rightarrow> 'v diag list" where
  "column_errors holes_df assay_df =
     check_columns assay_cols sheet_Assay (columns assay_df)
       (check_columns holes_cols sheet_Holes (columns holes_df) [])"

definition null_errors :: "'v dataframe \<Rightarrow> 'v dataframe \<Rightarrow> 'v diag list" where
  "null_errors holes_df assay_df =
     (let errors = (if has_null holes_df holes_cols then [NullValues sheet_Holes] else [])
      in if has_null assay_df assay_cols then errors @ [NullValues sheet_Assay] else errors)"

section \<open>Merge engine\<close>

text \<open>The seven reads at the head of the loop over \<open>holes_df.iterrows()\<close>.\<close>

definition hole_fields ::
  "pystr list \<Rightarrow> 'v option list \<Rightarrow> exn + ('v option \<times> 'v hole_values)" where
  "hole_fields cols row =
     (case row_get cols row col_name of Inl e \<Rightarrow> Inl e | Inr name \<Rightarrow>
      case row_get cols row col_X of Inl e \<Rightarrow> Inl e | Inr x_val \<Rightarrow>
      case row_get cols row col_Y of Inl e \<Rightarrow> Inl e | Inr y_val \<Rightarrow>
      case row_get cols row col_Z of Inl e \<Rightarrow> Inl e | Inr z_val \<Rightarrow>
      case row_get cols row col_length of Inl e \<Rightarrow> Inl e | Inr length_val \<Rightarrow>
      case row_get cols row col_level of Inl e \<Rightarrow> Inl e | Inr level_val \<Rightarrow>
      case row_get cols row col_issue_date of Inl e \<Rightarrow> Inl e | Inr issue_date_val \<Rightarrow>
        Inr (name, \<lparr>v_x = x_val, v_y = y_val, v_z = z_val, v_lenght = length_val,
                     v_level = level_val, v_issue_date = issue_date_val\<rparr>))"

text \<open>\<open>SELECT id, name FROM holes\<close> and the loop that fills \<open>hole_name_to_id\<close>.\<close>

definition load_hole_name_to_id :: "'v hole list \<Rightarrow> ('v option \<rightharpoonup> int)" where
  "load_hole_name_to_id hs = fold (\<lambda>r m. m(h_name r \<mapsto> h_id r)) hs Map.empty"

fun holes_loop ::
  "pystr list \<Rightarrow> 'v option list list \<Rightarrow> 'v store \<Rightarrow> ('v option \<rightharpoonup> int)
     \<Rightarrow> exn + ('v store \<times> ('v option \<rightharpoonup> int))" where
  "holes_loop cols [] st hole_name_to_id = Inr (st, hole_name_to_id)"
| "holes_loop cols (row # rest) st hole_name_to_id =
     (case hole_fields cols row of
        Inl e \<Rightarrow> Inl e
      | Inr (name, vs) \<Rightarrow>
          (case hole_name_to_id name of
             Some hole_id \<Rightarrow> holes_loop cols rest (update_hole st hole_id vs) hole_name_to_id
           | None \<Rightarrow>
               (case insert_hole st name vs of
                  Inl e \<Rightarrow> Inl e
                | Inr (st', hole_id) \<Rightarrow>
                    holes_loop cols rest st' (hole_name_to_id(name \<mapsto> hole_id)))))"

definition assay_fields ::
  "pystr list \<Rightarrow> 'v option list \<Rightarrow> exn + ('v option \<times> 'v option \<times> 'v option \<times> 'v option)" where
  "assay_fields cols row =
     (case row_get cols row col_hole_name of Inl e \<Rightarrow> Inl e | Inr hole_name \<Rightarrow>
      case row_get cols row col_from of Inl e \<Rightarrow> Inl e | Inr from_val \<Rightarrow>
      case row_get cols row col_to of Inl e \<Rightarrow> Inl e | Inr to_val \<Rightarrow>
      case row_get cols row col_Au of Inl e \<Rightarrow> Inl e | Inr au_val \<Rightarrow>
        Inr (hole_name, from_val, to_val, au_val))"

fun assay_loop ::
  "pystr list \<Rightarrow> 'v option list list \<Rightarrow> int \<Rightarrow> 'v store \<Rightarrow> ('v option \<rightharpoonup> int)
     \<Rightarrow> 'v diag list \<Rightarrow> exn + ('v store \<times> 'v diag list)" where
  "assay_loop cols [] idx st hole_name_to_id errors = Inr (st, errors)"
| "assay_loop cols (row # rest) idx st hole_name_to_id errors =
     (case assay_fields cols row of
        Inl e \<Rightarrow> Inl e
      | Inr (hole_name, from_val, to_val, au_val) \<Rightarrow>
          (case hole_name_to_id hole_name of
             None \<Rightarrow>
               assay_loop cols rest (idx + 1) st hole_name_to_id
                 (errors @ [HoleMissing hole_name (idx + 2)])
           | Some hole_id \<Rightarrow>
               (case insert_assay st hole_id from_val to_val au_val of
                  Inl e \<Rightarrow> Inl e
                | Inr st' \<Rightarrow> assay_loop cols rest (idx + 1) st' hole_name_to_id errors)))"

text \<open>
  The statements between \<open>cur = conn.cursor()\<close> and the test of \<open>errors\<close>, on the working
  copy of the store that the transaction holds.
\<close>

definition merge_rows ::
  "'v store \<Rightarrow> 'v dataframe \<Rightarrow> 'v dataframe \<Rightarrow> exn + ('v store \<times> 'v diag list)" where
  "merge_rows st holes_df assay_df =
     (case holes_loop (columns holes_df) (rows holes_df) st (load_hole_name_to_id (holes st)) of
        Inl e \<Rightarrow> Inl e
      | Inr (st1, hole_name_to_id) \<Rightarrow>
          assay_loop (columns assay_df) (rows assay_df) 0 st1 hole_name_to_id [])"

text \<open>
  The last \<open>try\<close> block. A rollback leaves the database file as it was; a commit writes
  the working copy. When \<open>sqlite3.connect\<close> itself raises, \<open>conn\<close> is not among the locals
  and the handler neither rolls back nor closes.
\<close>

definition merge_engine ::
  "'v world \<Rightarrow> pystr \<Rightarrow> 'v dataframe \<Rightarrow> 'v dataframe \<Rightarrow> event list \<Rightarrow> 'v outcome" where
  "merge_engine w db_path holes_df assay_df evs =
     (case sqlite w db_path of
        Unopenable e \<Rightarrow>
          \<lparr>success = False, diagnostics = [DbError (SqliteError e)],
           events = evs @ [Connect], final = w\<rparr>
      | Corrupt e \<Rightarrow>
          \<lparr>success = False, diagnostics = [DbError (SqliteError e)],
           events = evs @ [Connect, Rollback, CloseConnection], final = w\<rparr>
      | Database st \<Rightarrow>
          (case merge_rows st holes_df assay_df of
             Inl e \<Rightarrow>
               \<lparr>success = False, diagnostics = [DbError e],
                events = evs @ [Connect, Rollback, CloseConnection], final = w\<rparr>
           | Inr (st', errors) \<Rightarrow>
               if errors \<noteq> [] then
                 \<lparr>success = False, diagnostics = errors,
                  events = evs @ [Connect, Rollback, CloseConnection], final = w\<rparr>
               else
                 \<lparr>success = True, diagnostics = [],
                  events = evs @ [Connect, Commit, CloseConnection],
                  final = w\<lparr>sqlite := (sqlite w)(db_path := Database st')\<rparr>\<rparr>))"

section \<open>The entry point\<close>

text \<open>
  The statements after the first \<open>try\<close> block up to the null-value check: the two
  \<open>os.path.isfile\<close> tests, the second \<open>pd.ExcelFile(excel_path)\<close> (bound to \<open>xls\<close> and
  closed nowhere), the sheet check, the parse, the column check and the null check.
\<close>

definition validate_and_merge :: "'v world \<Rightarrow> pystr \<Rightarrow> pystr \<Rightarrow> event list \<Rightarrow> 'v outcome" where
  "validate_and_merge w excel_path db_path evs =
     (if \<not> isfile w excel_path then
        \<lparr>success = False, diagnostics = [ExcelNotFound excel_path], events = evs, final = w\<rparr>
      else if \<not> isfile w db_path then
        \<lparr>success = False, diagnostics = [DbNotFound db_path], events = evs, final = w\<rparr>
      else
        (case excel_file w excel_path of
           Inl e \<Rightarrow>
             \<lparr>success = False, diagnostics = [ExcelOpenError e], events = evs, final = w\<rparr>
         | Inr xls \<Rightarrow>
             (let evs' = evs @ [OpenWorkbook];
                  errors = check_sheets required_sheets (sheet_names xls) []
              in if errors \<noteq> [] then
                   \<lparr>success = False, diagnostics = errors, events = evs', final = w\<rparr>
                 else
                   (case load_sheets xls of
                      Inl e \<Rightarrow>
                        \<lparr>success = False, diagnostics = [SheetParseError e],
                         events = evs', final = w\<rparr>
                    | Inr (holes_df, assay_df) \<Rightarrow>
                        if column_errors holes_df assay_df \<noteq> [] then
                          \<lparr>success = False, diagnostics = column_errors holes_df assay_df,
                           events = evs', final = w\<rparr>
                        else if null_errors holes_df assay_df \<noteq> [] then
                          \<lparr>success = False, diagnostics = null_errors holes_df assay_df,
                           events = evs', final = w\<rparr>
                        else merge_engine w db_path holes_df assay_df evs'))))"

text \<open>
  \<open>import_excel_to_db(excel_path, db_path)\<close>. The first \<open>try\<close> block opens the workbook in
  a \<open>with\<close> statement, which closes it on every way out of the block; the frames it
  parses are assigned again by the second read before they are used.
\<close>

definition import_excel_to_db :: "'v world \<Rightarrow> pystr \<Rightarrow> pystr \<Rightarrow> 'v outcome" where
  "import_excel_to_db w excel_path db_path =
     (case excel_file w excel_path of
        Inl e \<Rightarrow>
          \<lparr>success = False, diagnostics = [ExcelReadError e], events = [], final = w\<rparr>
      | Inr xls \<Rightarrow>
          (let errors = check_sheets required_sheets (sheet_names xls) []
           in if errors \<noteq> [] then
                \<lparr>success = False, diagnostics = errors,
                 events = [OpenWorkbook, CloseWorkbook], final = w\<rparr>
              else
                (case load_sheets xls of
                   Inl e \<Rightarrow>
                     \<lparr>success = False, diagnostics = [ExcelReadError e],
                      events = [OpenWorkbook, CloseWorkbook], final = w\<rparr>
                 | Inr _ \<Rightarrow>
                     validate_and_merge w excel_path db_path [OpenWorkbook, CloseWorkbook])))"


section \<open>Invariants of the merge\<close>

definition hole_keys :: "'v store \<Rightarrow> ('v option \<times> int) list" where
  "hole_keys st = map (\<lambda>r. (h_name r, h_id r)) (holes st)"

definition tracks :: "('v option \<rightharpoonup> int) \<Rightarrow> 'v store \<Rightarrow> bool" where
  "tracks m st \<longleftrightarrow>
     (\<forall>k \<in> set (hole_keys st). m (fst k) \<noteq> None) \<and>
     (\<forall>n i. m n = Some i \<longrightarrow> (n, i) \<in> set (hole_keys st))"

definition wf_store :: "'v store \<Rightarrow> bool" where
  "wf_store st \<longleftrightarrow> distinct (map h_id (holes st)) \<and> distinct (map h_name (holes st))"


section \<open>Example workbooks and stores\<close>

datatype pyval = Str pystr | Num int

definition ex_hole_row :: "string \<Rightarrow> int \<Rightarrow> pyval option list" where
  "ex_hole_row name x =
     [Some (Str (py name)), Some (Num x), Some (Num 2), Some (Num 3), Some (Num 10),
      Some (Num 100), Some (Num 20231231)]"

definition ex_assay_row :: "string \<Rightarrow> int \<Rightarrow> pyval option list" where
  "ex_assay_row name au = [Some (Str (py name)), Some (Num 0), Some (Num 1), Some (Num au)]"

definition ex_holes :: "pyval dataframe" where
  "ex_holes = \<lparr>columns = holes_cols, rows = [ex_hole_row ''A'' 1, ex_hole_row ''B'' 5]\<rparr>"

definition ex_assay :: "pyval dataframe" where
  "ex_assay = \<lparr>columns = assay_cols, rows = [ex_assay_row ''A'' 7, ex_assay_row ''B'' 9]\<rparr>"

definition ex_book :: "pyval workbook" where
  "ex_book = [(sheet_Holes, Inr ex_holes), (sheet_Assay, Inr ex_assay)]"

definition ex_store :: "pyval store" where
  "ex_store = \<lparr>holes = [], assay = []\<rparr>"

definition world_of :: "pyval workbook \<Rightarrow> pyval store \<Rightarrow> pyval world" where
  "world_of xls st =
     \<lparr>isfile = (\<lambda>p. True), excel_file = (\<lambda>p. Inr xls), sqlite = (\<lambda>p. Database st)\<rparr>"

definition ex_xlsx :: pystr where "ex_xlsx = py ''journal.xlsx''"
definition ex_db :: pystr where "ex_db = py ''database''"

definition ex_holes_only :: "pyval workbook" where
  "ex_holes_only = [(sheet_Holes, Inr ex_holes)]"

definition ex_assay_only :: "pyval workbook" where
  "ex_assay_only = [(sheet_Assay, Inr ex_assay)]"

definition world_without_db :: "pyval workbook \<Rightarrow> pyval world" where
  "world_without_db xls =
     \<lparr>isfile = (\<lambda>p. p \<noteq> ex_db), excel_file = (\<lambda>p. Inr xls),
      sqlite = (\<lambda>p. Unopenable (py ''unable to open database file''))\<rparr>"

text \<open>A holes sheet without the column X and an assay sheet without the column Au.\<close>

definition ex_holes_no_X :: "pyval dataframe" where
  "ex_holes_no_X =
     \<lparr>columns = [col_name, col_Y, col_Z, col_length, col_level, col_issue_date],
      rows = [[Some (Str (py ''A'')), Some (Num 2), Some (Num 3), Some (Num 10), Some (Num 100),
               Some (Num 20231231)]]\<rparr>"

definition ex_assay_no_Au :: "pyval dataframe" where
  "ex_assay_no_Au =
     \<lparr>columns = [col_hole_name, col_from, col_to],
      rows = [[Some (Str (py ''A'')), Some (Num 0), Some (Num 1)]]\<rparr>"

definition ex_book_missing_columns :: "pyval workbook" where
  "ex_book_missing_columns = [(sheet_Holes, Inr ex_holes_no_X), (sheet_Assay, Inr ex_assay_no_Au)]"

text \<open>Both sheets with empty cells: two in the holes sheet, one in the assay sheet.\<close>

definition ex_holes_nulls :: "pyval dataframe" where
  "ex_holes_nulls =
     \<lparr>columns = holes_cols,
      rows = [[Some (Str (py ''A'')), None, Some (Num 2), Some (Num 3), Some (Num 10),
               Some (Num 100), Some (Num 20231231)],
              [Some (Str (py ''B'')), Some (Num 1), None, Some (Num 3), Some (Num 10),
               Some (Num 100), Some (Num 20231231)]]\<rparr>"

definition ex_assay_nulls :: "pyval dataframe" where
  "ex_assay_nulls =
     \<lparr>columns = assay_cols, rows = [[Some (Str (py ''A'')), Some (Num 0), Some (Num 1), None]]\<rparr>"

definition ex_book_nulls :: "pyval workbook" where
  "ex_book_nulls = [(sheet_Holes, Inr ex_holes_nulls), (sheet_Assay, Inr ex_assay_nulls)]"


section \<open>Properties\<close>

lemma check_sheets_eq:
  "check_sheets sheets names errors =
     errors @ map SheetMissing (filter (\<lambda>s. s \<notin> set names) sheets)"
  by (induction sheets arbitrary: errors) simp_all

lemma check_columns_eq:
  "check_columns cols sheet present errors =
     errors @ map (\<lambda>c. ColumnMissing c sheet) (filter (\<lambda>c. c \<notin> set present) cols)"
  by (induction cols arbitrary: errors) simp_all

lemma check_sheets_empty_iff:
  "(check_sheets sheets names [] = ([] :: 'v diag list)) \<longleftrightarrow> set sheets \<subseteq> set names"
  by (auto simp: check_sheets_eq filter_empty_conv)

lemma column_errors_eq:
  "column_errors holes_df assay_df =
     map (\<lambda>c. ColumnMissing c sheet_Holes) (filter (\<lambda>c. c \<notin> set (columns holes_df)) holes_cols) @
     map (\<lambda>c. ColumnMissing c sheet_Assay) (filter (\<lambda>c. c \<notin> set (columns assay_df)) assay_cols)"
  by (simp add: column_errors_def check_columns_eq)

lemma column_errors_empty_iff:
  "column_errors holes_df assay_df = [] \<longleftrightarrow>
     set holes_cols \<subseteq> set (columns holes_df) \<and> set assay_cols \<subseteq> set (columns assay_df)"
  by (auto simp: column_errors_eq filter_empty_conv)

lemma null_errors_eq:
  "null_errors holes_df assay_df =
     (if has_null holes_df holes_cols then [NullValues sheet_Holes] else []) @
     (if has_null assay_df assay_cols then [NullValues sheet_Assay] else [])"
  by (simp add: null_errors_def)

lemma null_errors_empty_iff:
  "null_errors holes_df assay_df = [] \<longleftrightarrow>
     \<not> has_null holes_df holes_cols \<and> \<not> has_null assay_df assay_cols"
  by (simp add: null_errors_eq)

lemma has_null_iff:
  "has_null df cols \<longleftrightarrow>
     (\<exists>row \<in> set (rows df). \<exists>i < length (columns df).
        columns df ! i \<in> set cols \<and> cell_at row i = None)"
  unfolding has_null_def list_ex_iff by fastforce

lemma load_sheets_Inr:
  "load_sheets xls = Inr (holes_df, assay_df) \<longleftrightarrow>
     (\<exists>h a. parse xls sheet_Holes = Inr h \<and> parse xls sheet_Assay = Inr a \<and>
            holes_df = rename_columns h \<and> assay_df = rename_columns a)"
  by (auto simp: load_sheets_def split: sum.splits)

lemma merge_engine_failure:
  "\<not> success (merge_engine w db_path holes_df assay_df evs) \<Longrightarrow>
     final (merge_engine w db_path holes_df assay_df evs) = w"
  by (auto simp: merge_engine_def split: dbfile.splits sum.splits prod.splits if_splits)

lemma validate_failure_cases:
  fixes w :: "'v world"
  assumes "\<not> isfile w excel_path \<or> \<not> isfile w db_path \<or>
     (\<exists>xls. excel_file w excel_path = Inr xls \<and>
        (\<not> set required_sheets \<subseteq> set (sheet_names xls) \<or>
         (\<exists>h a. load_sheets xls = Inr (h, a) \<and>
            (column_errors h a \<noteq> [] \<or> null_errors h a \<noteq> []))))"
  shows "\<not> success (validate_and_merge w excel_path db_path evs) \<and>
         diagnostics (validate_and_merge w excel_path db_path evs) \<noteq> [] \<and>
         final (validate_and_merge w excel_path db_path evs) = w \<and>
         (Connect \<in> set (events (validate_and_merge w excel_path db_path evs)) \<longrightarrow> Connect \<in> set evs)"
  using assms
  by (auto simp: validate_and_merge_def Let_def check_sheets_empty_iff split: sum.splits prod.splits)

lemma fold_max_ge: "x \<in> set (i # ids) \<Longrightarrow> x \<le> fold max ids (i::int)"
proof (induction ids arbitrary: i x)
  case Nil
  then show ?case by simp
next
  case (Cons j ids)
  have a: "max j i \<le> fold max ids (max j i)" by (rule Cons.IH) simp
  show ?case
  proof (cases "x \<in> set ids")
    case True
    then have "x \<in> set (max j i # ids)" by simp
    from Cons.IH[OF this] show ?thesis by simp
  next
    case False
    then have "x \<le> max j i" using Cons.prems by auto
    from order_trans[OF this a] show ?thesis by (simp only: fold_simps o_apply)
  qed
qed

lemma next_id_fresh: "next_id ids \<notin> set ids"
proof (cases ids)
  case Nil
  then show ?thesis by simp
next
  case (Cons i rest)
  show ?thesis
  proof
    assume "next_id ids \<in> set ids"
    then have "next_id ids \<le> fold max rest i" using Cons fold_max_ge[of "next_id ids" i rest] by simp
    then show False using Cons by simp
  qed
qed

lemma fold_load_sound:
  "fold (\<lambda>r m. m(h_name r \<mapsto> h_id r)) hs m0 n = Some i \<Longrightarrow>
     m0 n = Some i \<or> (n, i) \<in> set (map (\<lambda>r. (h_name r, h_id r)) hs)"
proof (induction hs arbitrary: m0)
  case Nil
  then show ?case by simp
next
  case (Cons r hs)
  from Cons.prems have "fold (\<lambda>r m. m(h_name r \<mapsto> h_id r)) hs (m0(h_name r \<mapsto> h_id r)) n = Some i"
    by (simp only: fold_simps o_apply)
  from Cons.IH[OF this] show ?case
    by (cases "n = h_name r") auto
qed

lemma fold_load_complete:
  "m0 n \<noteq> None \<or> n \<in> set (map h_name hs) \<Longrightarrow>
     fold (\<lambda>r m. m(h_name r \<mapsto> h_id r)) hs m0 n \<noteq> None"
proof (induction hs arbitrary: m0)
  case Nil
  then show ?case by simp
next
  case (Cons r hs)
  have "(m0(h_name r \<mapsto> h_id r)) n \<noteq> None \<or> n \<in> set (map h_name hs)"
    using Cons.prems by (cases "n = h_name r") auto
  then have "fold (\<lambda>r m. m(h_name r \<mapsto> h_id r)) hs (m0(h_name r \<mapsto> h_id r)) n \<noteq> None"
    by (rule Cons.IH)
  then show ?case by (simp del: fun_upd_apply)
qed

lemma load_tracks: "tracks (load_hole_name_to_id (holes st)) st"
proof -
  have a: "\<forall>k \<in> set (hole_keys st). load_hole_name_to_id (holes st) (fst k) \<noteq> None"
  proof
    fix k assume "k \<in> set (hole_keys st)"
    then have "fst k \<in> set (map h_name (holes st))" by (auto simp: hole_keys_def)
    then show "load_hole_name_to_id (holes st) (fst k) \<noteq> None"
      unfolding load_hole_name_to_id_def using fold_load_complete[of Map.empty "fst k" "holes st"] by blast
  qed
  have b: "\<forall>n i. load_hole_name_to_id (holes st) n = Some i \<longrightarrow> (n, i) \<in> set (hole_keys st)"
    unfolding load_hole_name_to_id_def hole_keys_def
    using fold_load_sound[of "holes st" Map.empty] by fastforce
  show ?thesis unfolding tracks_def using a b by blast
qed

lemma update_hole_keys [simp]: "hole_keys (update_hole st hid vs) = hole_keys st"
  by (simp add: update_hole_def hole_keys_def)

lemma update_hole_names [simp]: "map h_name (holes (update_hole st hid vs)) = map h_name (holes st)"
  by (simp add: update_hole_def)

lemma update_hole_ids [simp]: "map h_id (holes (update_hole st hid vs)) = map h_id (holes st)"
  by (simp add: update_hole_def)

lemma update_hole_assay [simp]: "assay (update_hole st hid vs) = assay st"
  by (simp add: update_hole_def)

lemma update_hole_length [simp]: "length (holes (update_hole st hid vs)) = length (holes st)"
  by (simp add: update_hole_def)

lemma tracks_update: "tracks m st \<Longrightarrow> tracks m (update_hole st hid vs)"
  by (simp add: tracks_def)

lemma tracks_name_not_in_store:
  "tracks m st \<Longrightarrow> m name = None \<Longrightarrow> name \<notin> set (map h_name (holes st))"
  unfolding tracks_def hole_keys_def by fastforce

lemma insert_hole_new:
  assumes "tracks m st" "m name = None"
  shows "insert_hole st name vs =
           Inr (st\<lparr>holes := holes st @
                   [\<lparr>h_id = next_id (map h_id (holes st)), h_name = name, h_values = vs\<rparr>]\<rparr>,
                next_id (map h_id (holes st)))"
  using tracks_name_not_in_store[OF assms] by (simp add: insert_hole_def Let_def)

lemma tracks_insert:
  assumes "tracks m st" "m name = None"
  shows "tracks (m(name \<mapsto> i)) (st\<lparr>holes := holes st @ [\<lparr>h_id = i, h_name = name, h_values = vs\<rparr>]\<rparr>)"
proof -
  have k: "hole_keys (st\<lparr>holes := holes st @ [\<lparr>h_id = i, h_name = name, h_values = vs\<rparr>]\<rparr>)
             = hole_keys st @ [(name, i)]"
    by (simp add: hole_keys_def)
  show ?thesis unfolding tracks_def k using assms unfolding tracks_def by auto
qed

lemma import_after_read:
  fixes w :: "'v world"
  assumes "excel_file w excel_path = Inr xls" "set required_sheets \<subseteq> set (sheet_names xls)"
    "load_sheets xls = Inr dfs"
  shows "import_excel_to_db w excel_path db_path =
           validate_and_merge w excel_path db_path [OpenWorkbook, CloseWorkbook]"
  using assms by (simp add: import_excel_to_db_def Let_def check_sheets_empty_iff)

lemma validate_after_read:
  fixes w :: "'v world"
  assumes "excel_file w excel_path = Inr xls" "set required_sheets \<subseteq> set (sheet_names xls)"
    "load_sheets xls = Inr (h, a)" "isfile w excel_path" "isfile w db_path"
  shows "validate_and_merge w excel_path db_path evs =
           (if column_errors h a \<noteq> [] then
              \<lparr>success = False, diagnostics = column_errors h a,
               events = evs @ [OpenWorkbook], final = w\<rparr>
            else if null_errors h a \<noteq> [] then
              \<lparr>success = False, diagnostics = null_errors h a,
               events = evs @ [OpenWorkbook], final = w\<rparr>
            else merge_engine w db_path h a (evs @ [OpenWorkbook]))"
  using assms by (simp add: validate_and_merge_def Let_def check_sheets_empty_iff)

lemma import_early_failure:
  fixes w :: "'v world"
  assumes "excel_file w excel_path = Inl e \<or>
      (\<exists>xls. excel_file w excel_path = Inr xls \<and>
         (\<not> set required_sheets \<subseteq> set (sheet_names xls) \<or> (\<exists>e. load_sheets xls = Inl e)))"
  shows "\<not> success (import_excel_to_db w excel_path db_path) \<and>
         diagnostics (import_excel_to_db w excel_path db_path) \<noteq> [] \<and>
         Connect \<notin> set (events (import_excel_to_db w excel_path db_path)) \<and>
         final (import_excel_to_db w excel_path db_path) = w"
  using assms
  by (auto simp: import_excel_to_db_def Let_def check_sheets_empty_iff split: sum.splits)

text \<open>
  Claim C2. When the workbook opens but a required sheet is missing, or a required column
  is missing from a parsed sheet, or a required column of a parsed sheet holds a null
  cell, \<open>import_excel_to_db\<close> returns failure with at least one diagnostic, no
  \<open>sqlite3.connect\<close> is attempted, and the world (every database file) is as before.
\<close>
theorem validation_failure_never_connects:
  fixes w :: "'v world"
  assumes "excel_file w excel_path = Inr xls"
    and "\<not> set required_sheets \<subseteq> set (sheet_names xls) \<or>
         (\<exists>h a. load_sheets xls = Inr (h, a) \<and>
            (\<not> set holes_cols \<subseteq> set (columns h) \<or> \<not> set assay_cols \<subseteq> set (columns a) \<or>
             has_null h holes_cols \<or> has_null a assay_cols))"
  shows "\<not> success (import_excel_to_db w excel_path db_path) \<and>
         diagnostics (import_excel_to_db w excel_path db_path) \<noteq> [] \<and>
         Connect \<notin> set (events (import_excel_to_db w excel_path db_path)) \<and>
         final (import_excel_to_db w excel_path db_path) = w"
proof (cases "set required_sheets \<subseteq> set (sheet_names xls)")
  case False
  then show ?thesis using assms(1) import_early_failure[of w excel_path db_path] by blast
next
  case True
  then obtain h a where l: "load_sheets xls = Inr (h, a)"
    and bad: "column_errors h a \<noteq> [] \<or> null_errors h a \<noteq> []"
    using assms(2) by (auto simp: column_errors_empty_iff null_errors_empty_iff)
  have i: "import_excel_to_db w excel_path db_path =
        validate_and_merge w excel_path db_path [OpenWorkbook, CloseWorkbook]"
    using import_after_read[OF assms(1) True l] .
  have "\<exists>xls. excel_file w excel_path = Inr xls \<and>
        (\<not> set required_sheets \<subseteq> set (sheet_names xls) \<or>
         (\<exists>h a. load_sheets xls = Inr (h, a) \<and>
            (column_errors h a \<noteq> [] \<or> null_errors h a \<noteq> [])))"
    using assms(1) l bad by blast
  then show ?thesis
    unfolding i
    using validate_failure_cases[of w excel_path db_path "[OpenWorkbook, CloseWorkbook]"]
    by auto
qed

lemmas col_defs = col_name_def col_X_def col_Y_def col_Z_def col_length_def col_level_def
  col_issue_date_def col_hole_name_def col_from_def col_to_def col_Au_def py_def

lemma ex_hole_fields:
  "hole_fields holes_cols (ex_hole_row name x) =
     Inr (Some (Str (py name)),
          \<lparr>v_x = Some (Num x), v_y = Some (Num 2), v_z = Some (Num 3), v_lenght = Some (Num 10),
           v_level = Some (Num 100), v_issue_date = Some (Num 20231231)\<rparr>)"
  by (simp add: hole_fields_def row_get_def positions_def holes_cols_def col_defs cell_at_def
        ex_hole_row_def)

lemma ex_assay_fields:
  "assay_fields assay_cols (ex_assay_row name au) =
     Inr (Some (Str (py name)), Some (Num 0), Some (Num 1), Some (Num au))"
  by (simp add: assay_fields_def row_get_def positions_def assay_cols_def col_defs cell_at_def
        ex_assay_row_def)

lemma ex_book_sheets: "set required_sheets \<subseteq> set (sheet_names ex_book)"
  by (simp add: required_sheets_def sheet_names_def ex_book_def)

lemma strip_col [simp]: "map strip holes_cols = holes_cols" "map strip assay_cols = assay_cols"
  by (simp_all add: holes_cols_def assay_cols_def col_defs strip_def isspace_def)

lemma ex_book_load: "load_sheets ex_book = Inr (ex_holes, ex_assay)"
  by (simp add: load_sheets_def parse_def ex_book_def sheet_Holes_def sheet_Assay_def py_def
        rename_columns_def ex_holes_def ex_assay_def)

lemma ex_no_null: "\<not> has_null ex_holes holes_cols" "\<not> has_null ex_assay assay_cols"
  by (simp_all add: has_null_def ex_holes_def ex_assay_def ex_hole_row_def ex_assay_row_def
        cell_at_def holes_cols_def assay_cols_def col_defs)

lemma ex_merge_rows:
  "merge_rows ex_store ex_holes ex_assay =
     Inr (\<lparr>holes =
             [\<lparr>h_id = 1, h_name = Some (Str (py ''A'')),
               h_values = \<lparr>v_x = Some (Num 1), v_y = Some (Num 2), v_z = Some (Num 3),
                 v_lenght = Some (Num 10), v_level = Some (Num 100),
                 v_issue_date = Some (Num 20231231)\<rparr>\<rparr>,
              \<lparr>h_id = 2, h_name = Some (Str (py ''B'')),
               h_values = \<lparr>v_x = Some (Num 5), v_y = Some (Num 2), v_z = Some (Num 3),
                 v_lenght = Some (Num 10), v_level = Some (Num 100),
                 v_issue_date = Some (Num 20231231)\<rparr>\<rparr>],
            assay =
             [\<lparr>a_id = 1, a_hole_id = 1, a_from = Some (Num 0), a_to = Some (Num 1),
               a_Au = Some (Num 7)\<rparr>,
              \<lparr>a_id = 2, a_hole_id = 2, a_from = Some (Num 0), a_to = Some (Num 1),
               a_Au = Some (Num 9)\<rparr>]\<rparr>, [])"
  by (simp add: merge_rows_def ex_store_def ex_holes_def ex_assay_def ex_hole_fields
        ex_assay_fields load_hole_name_to_id_def insert_hole_def insert_assay_def py_def)

lemma sheet_names_distinct [simp]: "sheet_Holes \<noteq> sheet_Assay" "sheet_Assay \<noteq> sheet_Holes"
  by (simp_all add: sheet_Holes_def sheet_Assay_def py_def)

theorem validation_failure_never_connects_witness:
  "\<not> set required_sheets \<subseteq> set (sheet_names ex_holes_only) \<and>
   \<not> success (import_excel_to_db (world_of ex_holes_only ex_store) ex_xlsx ex_db) \<and>
   Connect \<notin> set (events (import_excel_to_db (world_of ex_holes_only ex_store) ex_xlsx ex_db)) \<and>
   final (import_excel_to_db (world_of ex_holes_only ex_store) ex_xlsx ex_db) =
     world_of ex_holes_only ex_store"
proof -
  have h1: "excel_file (world_of ex_holes_only ex_store) ex_xlsx = Inr ex_holes_only"
    by (simp add: world_of_def)
  have h2: "\<not> set required_sheets \<subseteq> set (sheet_names ex_holes_only)"
    by (simp add: required_sheets_def sheet_names_def ex_holes_only_def)
  show ?thesis
    using validation_failure_never_connects[OF h1 disjI1[OF h2], of ex_db] h2 by simp
qed

text \<open>
  Claim C5. When execution reaches the column check (workbook readable, both sheets
  present and parsed, both paths existing files) and some required column is absent from
  the stripped headers of a sheet, the result is failure and the diagnostics are exactly
  one \<open>ColumnMissing\<close> per absent column, those of the holes sheet first, in the order of
  the column contract; no null-value diagnostic is among them; with a column missing on
  each sheet there are at least two.
\<close>
theorem column_check_reports_every_missing_column:
  fixes w :: "'v world"
  assumes "excel_file w excel_path = Inr xls"
    and "set required_sheets \<subseteq> set (sheet_names xls)"
    and "parse xls sheet_Holes = Inr hraw" and "parse xls sheet_Assay = Inr araw"
    and "isfile w excel_path" and "isfile w db_path"
    and "\<not> set holes_cols \<subseteq> set (map strip (columns hraw)) \<or>
         \<not> set assay_cols \<subseteq> set (map strip (columns araw))"
  shows "\<not> success (import_excel_to_db w excel_path db_path) \<and>
         diagnostics (import_excel_to_db w excel_path db_path) =
           map (\<lambda>c. ColumnMissing c sheet_Holes)
             (filter (\<lambda>c. c \<notin> set (map strip (columns hraw))) holes_cols) @
           map (\<lambda>c. ColumnMissing c sheet_Assay)
             (filter (\<lambda>c. c \<notin> set (map strip (columns araw))) assay_cols) \<and>
         (\<not> set holes_cols \<subseteq> set (map strip (columns hraw)) \<and>
          \<not> set assay_cols \<subseteq> set (map strip (columns araw)) \<longrightarrow>
            2 \<le> length (diagnostics (import_excel_to_db w excel_path db_path))) \<and>
         (\<forall>s. NullValues s \<notin> set (diagnostics (import_excel_to_db w excel_path db_path))) \<and>
         final (import_excel_to_db w excel_path db_path) = w"
proof -
  let ?h = "rename_columns hraw" and ?a = "rename_columns araw"
  have l: "load_sheets xls = Inr (?h, ?a)" using assms(3,4) by (simp add: load_sheets_def)
  have c: "columns ?h = map strip (columns hraw)" "columns ?a = map strip (columns araw)"
    by (simp_all add: rename_columns_def)
  have ne: "column_errors ?h ?a \<noteq> []"
    using assms(7) unfolding column_errors_empty_iff c by blast
  have i: "import_excel_to_db w excel_path db_path =
      \<lparr>success = False, diagnostics = column_errors ?h ?a,
       events = [OpenWorkbook, CloseWorkbook] @ [OpenWorkbook], final = w\<rparr>"
    using import_after_read[OF assms(1,2) l, of db_path]
      validate_after_read[OF assms(1,2) l assms(5,6), of "[OpenWorkbook, CloseWorkbook]"] ne
    by simp
  have d: "diagnostics (import_excel_to_db w excel_path db_path) =
           map (\<lambda>c. ColumnMissing c sheet_Holes)
             (filter (\<lambda>c. c \<notin> set (map strip (columns hraw))) holes_cols) @
           map (\<lambda>c. ColumnMissing c sheet_Assay)
             (filter (\<lambda>c. c \<notin> set (map strip (columns araw))) assay_cols)"
    unfolding i by (simp add: column_errors_eq c)
  have two: "2 \<le> length (diagnostics (import_excel_to_db w excel_path db_path))"
    if "\<not> set holes_cols \<subseteq> set (map strip (columns hraw))"
       "\<not> set assay_cols \<subseteq> set (map strip (columns araw))"
  proof -
    have "filter (\<lambda>c. c \<notin> set (map strip (columns hraw))) holes_cols \<noteq> []"
      using that(1) by (auto simp: filter_empty_conv)
    then have a: "1 \<le> length (filter (\<lambda>c. c \<notin> set (map strip (columns hraw))) holes_cols)"
      by (cases "filter (\<lambda>c. c \<notin> set (map strip (columns hraw))) holes_cols") simp_all
    have "filter (\<lambda>c. c \<notin> set (map strip (columns araw))) assay_cols \<noteq> []"
      using that(2) by (auto simp: filter_empty_conv)
    then have b: "1 \<le> length (filter (\<lambda>c. c \<notin> set (map strip (columns araw))) assay_cols)"
      by (cases "filter (\<lambda>c. c \<notin> set (map strip (columns araw))) assay_cols") simp_all
    show ?thesis unfolding d using a b by simp
  qed
  have n: "\<forall>s. NullValues s \<notin> set (diagnostics (import_excel_to_db w excel_path db_path))"
    unfolding d by auto
  show ?thesis using d two n by (simp add: i)
qed

lemma world_of_simps [simp]:
  "isfile (world_of xls st) p" "excel_file (world_of xls st) p = Inr xls"
  "sqlite (world_of xls st) p = Database st"
  by (simp_all add: world_of_def)

lemma parse_two_sheets [simp]:
  "parse [(sheet_Holes, h), (sheet_Assay, a)] sheet_Holes = h"
  "parse [(sheet_Holes, h), (sheet_Assay, a)] sheet_Assay = a"
  by (simp_all add: parse_def)

lemma two_sheets_present [simp]:
  "set required_sheets \<subseteq> set (sheet_names [(sheet_Holes, h), (sheet_Assay, a)])"
  by (simp add: required_sheets_def sheet_names_def)

theorem column_check_reports_every_missing_column_witness:
  "\<not> set holes_cols \<subseteq> set (map strip (columns ex_holes_no_X)) \<and>
   \<not> set assay_cols \<subseteq> set (map strip (columns ex_assay_no_Au)) \<and>
   \<not> success (import_excel_to_db (world_of ex_book_missing_columns ex_store) ex_xlsx ex_db) \<and>
   diagnostics (import_excel_to_db (world_of ex_book_missing_columns ex_store) ex_xlsx ex_db) =
     [ColumnMissing col_X sheet_Holes, ColumnMissing col_Au sheet_Assay]"
proof -
  let ?w = "world_of ex_book_missing_columns ex_store"
  have h1: "excel_file ?w ex_xlsx = Inr ex_book_missing_columns" by simp
  have h2: "set required_sheets \<subseteq> set (sheet_names ex_book_missing_columns)"
    by (simp add: ex_book_missing_columns_def)
  have h3: "parse ex_book_missing_columns sheet_Holes = Inr ex_holes_no_X"
    and h4: "parse ex_book_missing_columns sheet_Assay = Inr ex_assay_no_Au"
    by (simp_all add: ex_book_missing_columns_def)
  have h5: "isfile ?w ex_xlsx" and h6: "isfile ?w ex_db" by simp_all
  have ch: "map strip (columns ex_holes_no_X) =
              [col_name, col_Y, col_Z, col_length, col_level, col_issue_date]"
    by (simp add: ex_holes_no_X_def col_defs strip_def isspace_def)
  have ca: "map strip (columns ex_assay_no_Au) = [col_hole_name, col_from, col_to]"
    by (simp add: ex_assay_no_Au_def col_defs strip_def isspace_def)
  have fh: "filter (\<lambda>c. c \<notin> set (map strip (columns ex_holes_no_X))) holes_cols = [col_X]"
    unfolding ch by (simp add: holes_cols_def col_defs)
  have fa: "filter (\<lambda>c. c \<notin> set (map strip (columns ex_assay_no_Au))) assay_cols = [col_Au]"
    unfolding ca by (simp add: assay_cols_def col_defs)
  have m1: "\<not> set holes_cols \<subseteq> set (map strip (columns ex_holes_no_X))"
    unfolding ch by (simp add: holes_cols_def col_defs)
  have m2: "\<not> set assay_cols \<subseteq> set (map strip (columns ex_assay_no_Au))"
    unfolding ca by (simp add: assay_cols_def col_defs)
  show ?thesis
    using column_check_reports_every_missing_column[OF h1 h2 h3 h4 h5 h6 disjI1[OF m1],
        unfolded fh fa] m1 m2
    by simp
qed

text \<open>
  Claim C6. When execution reaches the null check (all required columns present) and a
  required column of either sheet holds a null cell, the result is failure and the
  diagnostics hold exactly one \<open>NullValues\<close> for each sheet that has a null, however many
  cells are null; nulls on both sheets give exactly two diagnostics.
\<close>
theorem null_check_one_diagnostic_per_sheet:
  fixes w :: "'v world"
  assumes "excel_file w excel_path = Inr xls"
    and "set required_sheets \<subseteq> set (sheet_names xls)"
    and "load_sheets xls = Inr (h, a)"
    and "isfile w excel_path" and "isfile w db_path"
    and "set holes_cols \<subseteq> set (columns h)" and "set assay_cols \<subseteq> set (columns a)"
    and "has_null h holes_cols \<or> has_null a assay_cols"
  shows "\<not> success (import_excel_to_db w excel_path db_path) \<and>
         diagnostics (import_excel_to_db w excel_path db_path) =
           (if has_null h holes_cols then [NullValues sheet_Holes] else []) @
           (if has_null a assay_cols then [NullValues sheet_Assay] else []) \<and>
         length (filter (\<lambda>d. d = NullValues sheet_Holes)
                   (diagnostics (import_excel_to_db w excel_path db_path)))
           = (if has_null h holes_cols then 1 else 0) \<and>
         length (filter (\<lambda>d. d = NullValues sheet_Assay)
                   (diagnostics (import_excel_to_db w excel_path db_path)))
           = (if has_null a assay_cols then 1 else 0) \<and>
         (has_null h holes_cols \<and> has_null a assay_cols \<longrightarrow>
            diagnostics (import_excel_to_db w excel_path db_path) =
              [NullValues sheet_Holes, NullValues sheet_Assay]) \<and>
         final (import_excel_to_db w excel_path db_path) = w"
proof -
  have ce: "column_errors h a = []" using assms(6,7) by (simp add: column_errors_empty_iff)
  have ne: "null_errors h a \<noteq> []" using assms(8) by (simp add: null_errors_empty_iff)
  have i: "import_excel_to_db w excel_path db_path =
      \<lparr>success = False, diagnostics = null_errors h a,
       events = [OpenWorkbook, CloseWorkbook] @ [OpenWorkbook], final = w\<rparr>"
    using import_after_read[OF assms(1,2,3), of db_path]
      validate_after_read[OF assms(1,2,3,4,5), of "[OpenWorkbook, CloseWorkbook]"] ce ne
    by simp
  show ?thesis unfolding i by (simp add: null_errors_eq)
qed

theorem null_check_one_diagnostic_per_sheet_witness:
  "has_null ex_holes_nulls holes_cols \<and> has_null ex_assay_nulls assay_cols \<and>
   \<not> success (import_excel_to_db (world_of ex_book_nulls ex_store) ex_xlsx ex_db) \<and>
   diagnostics (import_excel_to_db (world_of ex_book_nulls ex_store) ex_xlsx ex_db) =
     [NullValues sheet_Holes, NullValues sheet_Assay]"
proof -
  let ?w = "world_of ex_book_nulls ex_store"
  have h1: "excel_file ?w ex_xlsx = Inr ex_book_nulls" by simp
  have h2: "set required_sheets \<subseteq> set (sheet_names ex_book_nulls)"
    by (simp add: ex_book_nulls_def)
  have h3: "load_sheets ex_book_nulls = Inr (ex_holes_nulls, ex_assay_nulls)"
    by (simp add: load_sheets_def ex_book_nulls_def rename_columns_def ex_holes_nulls_def
          ex_assay_nulls_def)
  have h4: "isfile ?w ex_xlsx" and h5: "isfile ?w ex_db" by simp_all
  have h6: "set holes_cols \<subseteq> set (columns ex_holes_nulls)" by (simp add: ex_holes_nulls_def)
  have h7: "set assay_cols \<subseteq> set (columns ex_assay_nulls)" by (simp add: ex_assay_nulls_def)
  have n1: "has_null ex_holes_nulls holes_cols"
    by (simp add: has_null_def ex_holes_nulls_def cell_at_def holes_cols_def)
  have n2: "has_null ex_assay_nulls assay_cols"
    by (simp add: has_null_def ex_assay_nulls_def cell_at_def assay_cols_def)
  show ?thesis
    using null_check_one_diagnostic_per_sheet[OF h1 h2 h3 h4 h5 h6 h7 disjI1[OF n1]] n1 n2
    by simp
qed

end
